theory Spec2Isabelle
  imports Main "HOL-Library.AList"
begin

section \<open>Lazy queries and batched-load entries\<close>

text \<open>
  The optimizer of \<^verbatim>\<open>graphene_django_plus_optimizer/query.py\<close> never runs a query: it
  chains calls on a lazy Django queryset. A queryset is therefore modelled as the model it
  selects from, the chain of calls made on it so far, and the \<^verbatim>\<open>_gql_optimized\<close>
  attribute (absent until \<^verbatim>\<open>optimize_queryset\<close> sets it).

  An entry of a prefetch list is either a lookup string or a Django \<^verbatim>\<open>Prefetch\<close> object, which
  holds the two lookup paths \<^verbatim>\<open>prefetch_through\<close>, \<^verbatim>\<open>prefetch_to\<close> and a queryset.
  Annotation expressions are opaque to the optimizer; they are named by strings here.
\<close>

type_synonym expr = string

datatype qs_call =
    SelectRelatedCall "string list"
  | PrefetchRelatedCall "prefetch list"
  | AnnotateCall "(string \<times> expr) list"
  | OnlyCall "string list"
and prefetch =
    Lookup string
  | Prefetch string string queryset
and queryset =
    QuerySet string "qs_call list" "bool option"

definition LOOKUP_SEP :: string where
  "LOOKUP_SEP = ''__''"

text \<open>\<^verbatim>\<open>Model.objects.all()\<close>: the default base query of a model.\<close>

definition objects_all :: "string \<Rightarrow> queryset" where
  "objects_all m = QuerySet m [] None"

fun qs_model :: "queryset \<Rightarrow> string" where
  "qs_model (QuerySet m cs f) = m"

fun qs_calls :: "queryset \<Rightarrow> qs_call list" where
  "qs_calls (QuerySet m cs f) = cs"

fun gql_optimized :: "queryset \<Rightarrow> bool option" where
  "gql_optimized (QuerySet m cs f) = f"

text \<open>
  Every queryset method returns a clone with the call recorded; the clone does not carry
  attributes that were set on the original from outside.
\<close>

fun qs_chain :: "qs_call \<Rightarrow> queryset \<Rightarrow> queryset" where
  "qs_chain c (QuerySet m cs f) = QuerySet m (cs @ [c]) None"

fun set_gql_optimized :: "bool \<Rightarrow> queryset \<Rightarrow> queryset" where
  "set_gql_optimized b (QuerySet m cs f) = QuerySet m cs (Some b)"

text \<open>\<^verbatim>\<open>Prefetch(name, queryset=queryset)\<close> and \<^verbatim>\<open>Prefetch.add_prefix\<close>.\<close>

definition new_Prefetch :: "string \<Rightarrow> queryset \<Rightarrow> prefetch" where
  "new_Prefetch name queryset = Prefetch name name queryset"

text \<open>
  One step of the loop \<^verbatim>\<open>for prefetch in store.prefetch_list\<close> of both merge operations:
  a \<^verbatim>\<open>Prefetch\<close> object gets the prefix through \<^verbatim>\<open>add_prefix\<close>, a string is concatenated.
  \<^verbatim>\<open>add_prefix\<close> changes the child's object in place; every caller drops the child store
  after the merge, so the model hands the prefixed entry to the parent and leaves the child.
\<close>

fun prefix_prefetch :: "string \<Rightarrow> prefetch \<Rightarrow> prefetch" where
  "prefix_prefetch name (Prefetch through to queryset) =
     Prefetch (name @ LOOKUP_SEP @ through) (name @ LOOKUP_SEP @ to) queryset"
| "prefix_prefetch name (Lookup p) = Lookup (name @ LOOKUP_SEP @ p)"


fun is_OnlyCall :: "qs_call \<Rightarrow> bool" where
  "is_OnlyCall (OnlyCall cols) = True"
| "is_OnlyCall c = False"

section \<open>The plan store\<close>

text \<open>
  \<^verbatim>\<open>class QueryOptimizerStore\<close>. \<^verbatim>\<open>only_list\<close> is a Python list or \<^verbatim>\<open>None\<close>; \<^verbatim>\<open>None\<close> is the
  abort state. \<^verbatim>\<open>annotate_dict\<close> is a dict, kept as an association list in insertion order.
\<close>

record store =
  select_list :: "string list"
  prefetch_list :: "prefetch list"
  annotate_dict :: "(string \<times> expr) list"
  only_list :: "string list option"
  disable_abort_only :: bool
  prefetch_not_applied :: "prefetch list"
  append_only_list :: "string list"

text \<open>\<^verbatim>\<open>QueryOptimizerStore.__init__\<close>\<close>

definition new_store :: "bool \<Rightarrow> store" where
  "new_store dis =
     \<lparr> select_list = [], prefetch_list = [], annotate_dict = [], only_list = Some [],
       disable_abort_only = dis, prefetch_not_applied = [], append_only_list = [] \<rparr>"

text \<open>\<^verbatim>\<open>dict.update\<close> on association lists.\<close>

definition dict_update :: "('k \<times> 'v) list \<Rightarrow> ('k \<times> 'v) list \<Rightarrow> ('k \<times> 'v) list" where
  "dict_update target source = fold (\<lambda>(k, v) d. AList.update k v d) source target"

text \<open>Truthiness of \<^verbatim>\<open>only_list\<close>: neither \<^verbatim>\<open>None\<close> nor empty.\<close>

fun truthy_list :: "'a list option \<Rightarrow> bool" where
  "truthy_list None = False"
| "truthy_list (Some xs) = (xs \<noteq> [])"

text \<open>\<^verbatim>\<open>only\<close>, \<^verbatim>\<open>append_only\<close>, \<^verbatim>\<open>abort_only_optimization\<close>. The \<^verbatim>\<open>UserWarning\<close> of the last
  one goes to the warnings channel and leaves the store alone; it is not part of the state.\<close>

definition only :: "string \<Rightarrow> store \<Rightarrow> store" where
  "only field self =
     (case only_list self of
        None \<Rightarrow> self
      | Some cols \<Rightarrow> self\<lparr>only_list := Some (cols @ [field])\<rparr>)"

definition append_only :: "string \<Rightarrow> store \<Rightarrow> store" where
  "append_only field self = self\<lparr>append_only_list := append_only_list self @ [field]\<rparr>"

definition abort_only_optimization :: "store \<Rightarrow> store" where
  "abort_only_optimization self =
     (if \<not> disable_abort_only self then self\<lparr>only_list := None\<rparr> else self)"

text \<open>\<^verbatim>\<open>optimize_queryset\<close>\<close>

definition optimize_queryset :: "store \<Rightarrow> queryset \<Rightarrow> queryset" where
  "optimize_queryset self queryset =
     (let q1 = (if select_list self \<noteq> []
                then qs_chain (SelectRelatedCall (select_list self)) queryset else queryset);
          q2 = (if prefetch_list self \<noteq> []
                then qs_chain (PrefetchRelatedCall (prefetch_list self)) q1 else q1);
          q3 = (if annotate_dict self \<noteq> []
                then qs_chain (AnnotateCall (annotate_dict self)) q2 else q2);
          q4 = (case only_list self of
                  None \<Rightarrow> q3
                | Some cols \<Rightarrow>
                    if cols \<noteq> [] \<and> append_only_list self \<noteq> []
                    then qs_chain (OnlyCall (cols @ append_only_list self)) q3
                    else if cols \<noteq> [] then qs_chain (OnlyCall cols) q3
                    else q3)
      in set_gql_optimized (only_list self \<noteq> None) q4)"

text \<open>
  \<^verbatim>\<open>prefetch_related\<close>. The first branch appends to the child's \<^verbatim>\<open>only_list\<close> in place before
  applying the child to the queryset; \<open>prefetch_child\<close> is the child store after these appends.
\<close>

definition prefetch_child :: "store \<Rightarrow> string option \<Rightarrow> string option \<Rightarrow> store" where
  "prefetch_child store attname id_field =
     (let s1 = (case attname of
                  Some a \<Rightarrow> if a \<noteq> [] \<and> truthy_list (only_list store) then only a store else store
                | None \<Rightarrow> store)
      in (case id_field of
            Some i \<Rightarrow> if i \<noteq> [] \<and> truthy_list (only_list s1) \<and> i \<noteq> ''pk'' then only i s1 else s1
          | None \<Rightarrow> s1))"

definition prefetch_related ::
  "string \<Rightarrow> store \<Rightarrow> queryset \<Rightarrow> string option \<Rightarrow> string option \<Rightarrow> store \<Rightarrow> store" where
  "prefetch_related name store queryset attname id_field self =
     (if select_list store \<noteq> [] \<or> truthy_list (only_list store) then
        self\<lparr>prefetch_list := prefetch_list self @
          [new_Prefetch name (optimize_queryset (prefetch_child store attname id_field) queryset)]\<rparr>
      else if prefetch_list store \<noteq> [] then
        self\<lparr>prefetch_list := prefetch_list self @ map (prefix_prefetch name) (prefetch_list store)\<rparr>
      else
        self\<lparr>prefetch_list := prefetch_list self @ [Lookup name]\<rparr>)"

section \<open>Errors and model metadata\<close>

text \<open>
  The exceptions the optimizer's own statements can raise. \<open>RecursionError\<close> is what Python
  raises when the nesting of \<^verbatim>\<open>_optimize_gql_selections\<close> calls exceeds the interpreter's limit.
\<close>

datatype error = AttributeError | KeyError | IndexError | RecursionError

text \<open>
  What the optimizer reads of a Django model field (or reverse relation object):
  \<^verbatim>\<open>name\<close>, \<^verbatim>\<open>attname\<close>, the two \<^verbatim>\<open>isinstance\<close> tests it makes, the relation flags,
  \<^verbatim>\<open>related_model\<close> and, for a reverse relation, \<^verbatim>\<open>field.name\<close>.
\<close>

record model_field =
  mf_name :: string
  attname :: string
  is_ForeignKey :: bool
  is_ManyToOneRel :: bool
  many_to_one :: bool
  one_to_one :: bool
  one_to_many :: bool
  many_to_many :: bool
  is_relation :: bool
  related_model :: string
  remote_field_name :: string

section \<open>Merging a child store into its parent\<close>

text \<open>
  \<^verbatim>\<open>select_related(self, name, store, model_field=None, id_field=None)\<close>. With the default
  \<^verbatim>\<open>model_field=None\<close> the first branch reads \<^verbatim>\<open>None.attname\<close>, an \<^verbatim>\<open>AttributeError\<close>.
\<close>

definition select_related ::
  "string \<Rightarrow> store \<Rightarrow> model_field option \<Rightarrow> string option \<Rightarrow> store \<Rightarrow> error + store" where
  "select_related name store mf id_field self =
     (if annotate_dict store \<noteq> [] then
        (case mf of
           None \<Rightarrow> Inl AttributeError
         | Some f \<Rightarrow>
             Inr (prefetch_related name store (objects_all (related_model f)) None id_field
                    (append_only (attname f) self)))
      else
        (let s1 = self\<lparr>select_list := select_list self @
                    (if select_list store \<noteq> []
                     then map (\<lambda>select. name @ LOOKUP_SEP @ select) (select_list store)
                     else [name])\<rparr>;
             s2 = s1\<lparr>prefetch_list := prefetch_list s1 @
                    map (prefix_prefetch name) (prefetch_list store)\<rparr>
         in Inr (case only_list s2 of
              None \<Rightarrow> s2
            | Some cols \<Rightarrow>
                (case only_list store of
                   None \<Rightarrow> abort_only_optimization s2
                 | Some child_cols \<Rightarrow>
                     s2\<lparr>only_list := Some (cols @
                            (case id_field of
                               Some i \<Rightarrow> if i \<noteq> [] \<and> i \<noteq> ''pk'' then [name @ LOOKUP_SEP @ i] else []
                             | None \<Rightarrow> []) @
                            map (\<lambda>c. name @ LOOKUP_SEP @ c) child_cols),
                        append_only_list := append_only_list s2 @
                            map (\<lambda>c. name @ LOOKUP_SEP @ c) (append_only_list store)\<rparr>))))"

text \<open>\<^verbatim>\<open>append\<close>. \<^verbatim>\<open>append_only_list\<close> is never \<^verbatim>\<open>None\<close>, so its last test always takes
  the concatenating branch.\<close>

definition append :: "store \<Rightarrow> store \<Rightarrow> store" where
  "append store self =
     self\<lparr>select_list := select_list self @ select_list store,
          prefetch_list := prefetch_list self @ prefetch_list store,
          annotate_dict := dict_update (annotate_dict self) (annotate_dict store),
          prefetch_not_applied := prefetch_not_applied self @ prefetch_not_applied store,
          only_list := (case only_list self of
                          None \<Rightarrow> None
                        | Some cols \<Rightarrow>
                            (case only_list store of
                               None \<Rightarrow> None
                             | Some child_cols \<Rightarrow> Some (cols @ child_cols))),
          append_only_list := append_only_list self @ append_only_list store\<rparr>"

section \<open>Selection trees and directive evaluation\<close>

text \<open>
  Python values that reach the optimizer through variables, literals and directive arguments,
  with Python's truthiness. Argument values of the tree are variables or boolean and string
  literals; numeric, list and object literals are outside the model.
\<close>

datatype pyvalue = PyNone | PyBool bool | PyInt int | PyStr string

fun truthy :: "pyvalue \<Rightarrow> bool" where
  "truthy PyNone = False"
| "truthy (PyBool b) = b"
| "truthy (PyInt i) = (i \<noteq> 0)"
| "truthy (PyStr s) = (s \<noteq> [])"

datatype ast_value = Variable string | BooleanValue bool | StringValue string

datatype directive = Directive string "(string \<times> ast_value) list"

text \<open>
  A selection is a field (name, arguments, directives, optional selection set), a fragment
  spread (name) or an inline fragment (optional type condition, selection set).
\<close>

datatype selection =
    Field string "(string \<times> ast_value) list" "directive list" "selection list option"
  | FragmentSpread string
  | InlineFragment "string option" "selection list"

fun selection_set :: "selection \<Rightarrow> selection list option" where
  "selection_set (Field name args ds sels) = sels"
| "selection_set (FragmentSpread name) = None"
| "selection_set (InlineFragment cond sels) = Some sels"

fun directives :: "selection \<Rightarrow> directive list" where
  "directives (Field name args ds sels) = ds"
| "directives s = []"

fun arguments :: "selection \<Rightarrow> (string \<times> ast_value) list" where
  "arguments (Field name args ds sels) = args"
| "arguments s = []"

fun selection_name :: "selection \<Rightarrow> string" where
  "selection_name (Field name args ds sels) = name"
| "selection_name (FragmentSpread name) = name"
| "selection_name (InlineFragment cond sels) = []"

text \<open>\<^verbatim>\<open>dict.get(key, default)\<close> on association lists.\<close>

definition dict_get :: "('k \<times> 'v) list \<Rightarrow> 'k \<Rightarrow> 'v \<Rightarrow> 'v" where
  "dict_get d k dflt = (case map_of d k of None \<Rightarrow> dflt | Some v \<Rightarrow> v)"

text \<open>
  The inner loop of \<^verbatim>\<open>_optimize_field_by_directives\<close>: a variable is looked up with
  \<^verbatim>\<open>variable_values.get\<close> (\<^verbatim>\<open>None\<close> when unbound), a literal gives its \<^verbatim>\<open>value\<close>.
\<close>

fun directive_arg_value :: "(string \<times> pyvalue) list \<Rightarrow> ast_value \<Rightarrow> pyvalue" where
  "directive_arg_value vv (Variable var_name) = dict_get vv var_name PyNone"
| "directive_arg_value vv (BooleanValue b) = PyBool b"
| "directive_arg_value vv (StringValue s) = PyStr s"

definition directive_args ::
  "(string \<times> pyvalue) list \<Rightarrow> (string \<times> ast_value) list \<Rightarrow> (string \<times> pyvalue) list" where
  "directive_args vv dargs =
     fold (\<lambda>(n, v) args. AList.update n (directive_arg_value vv v) args) dargs []"

text \<open>
  \<^verbatim>\<open>_optimize_field_by_directives\<close>: the loop returns at the first directive named
  \<^verbatim>\<open>include\<close> or \<^verbatim>\<open>skip\<close>. The result is the Python value the caller tests for truth.
\<close>

fun optimize_field_by_directives :: "(string \<times> pyvalue) list \<Rightarrow> directive list \<Rightarrow> pyvalue" where
  "optimize_field_by_directives vv [] = PyBool False"
| "optimize_field_by_directives vv (Directive dname dargs # ds) =
     (let args = directive_args vv dargs in
      if dname = ''include'' then PyBool (\<not> truthy (dict_get args ''if'' (PyBool True)))
      else if dname = ''skip'' then dict_get args ''if'' (PyBool False)
      else optimize_field_by_directives vv ds)"

section \<open>Resolvers and optimization hints\<close>

text \<open>
  The context handed to a hint function (\<^verbatim>\<open>_create_resolve_info\<close>): what varies between
  fields is the field name, the return type and the parent type.
\<close>

record resolve_info =
  info_field_name :: string
  info_return_type :: string
  info_parent_type :: string

text \<open>
  An \<^verbatim>\<open>OptimizationHints\<close> bundle as the optimizer uses it: \<^verbatim>\<open>model_field\<close> is an optional
  function of no arguments (given here by the name it returns), \<^verbatim>\<open>ignore\<close> and
  \<^verbatim>\<open>apply_prefetch_related\<close> are flags, the other four are functions of the context and the
  call arguments. A hint that returns one string stands for the one-element tuple made of it.
\<close>

record hints =
  h_model_field :: "string option"
  h_ignore :: bool
  h_select_related :: "resolve_info \<Rightarrow> pyvalue list \<Rightarrow> string list"
  h_prefetch_related :: "resolve_info \<Rightarrow> pyvalue list \<Rightarrow> prefetch list"
  h_apply_prefetch_related :: bool
  h_annotate :: "resolve_info \<Rightarrow> pyvalue list \<Rightarrow> (string \<times> expr) list"
  h_only :: "resolve_info \<Rightarrow> pyvalue list \<Rightarrow> string list"

text \<open>
  The functions the optimizer compares resolvers with, and user functions by their
  \<^verbatim>\<open>__name__\<close>. A resolver is a function, with the hints attached to it if any, or a
  \<^verbatim>\<open>functools.partial\<close> of a function and positional arguments.
\<close>

datatype pyfunc =
    default_resolver
  | DjangoListField_list_resolver
  | DjangoPlusListField_list_resolver
  | GlobalID_id_resolver
  | PlusListField_list_resolver
  | PlusFilterConnectionField_connection_resolver
  | DjangoObjectType_resolve_id
  | UserFunction string

datatype resolver =
    Function pyfunc "hints option"
  | Partial pyfunc "pyobj list"
and pyobj =
    Str string
  | Callable resolver
  | Class string
  | NoneObject

text \<open>Python's \<^verbatim>\<open>xs[i]\<close>, which raises \<^verbatim>\<open>IndexError\<close> out of range.\<close>

definition index :: "'a list \<Rightarrow> nat \<Rightarrow> error + 'a" where
  "index xs i = (if i < length xs then Inr (xs ! i) else Inl IndexError)"

text \<open>\<^verbatim>\<open>getattr(resolver_fn, 'optimization_hints', None)\<close>\<close>

fun optimization_hints_attr :: "pyobj \<Rightarrow> hints option" where
  "optimization_hints_attr (Callable (Function f h)) = h"
| "optimization_hints_attr obj = None"

text \<open>\<^verbatim>\<open>_get_optimization_hints\<close>\<close>

fun get_optimization_hints :: "resolver \<Rightarrow> error + hints option" where
  "get_optimization_hints (Function f h) = Inr h"
| "get_optimization_hints (Partial f args) =
     (if f = DjangoListField_list_resolver \<or> f = DjangoPlusListField_list_resolver then
        map_sum id optimization_hints_attr (index args 1)
      else if f = GlobalID_id_resolver \<and> length args > 1 then
        map_sum id optimization_hints_attr (index args 0)
      else if f = PlusListField_list_resolver then
        map_sum id optimization_hints_attr (index args 0)
      else if f = PlusFilterConnectionField_connection_resolver then
        map_sum id optimization_hints_attr (index args 0)
      else Inr None)"

section \<open>Schema, models and the optimizer's context\<close>

text \<open>
  What the optimizer reads of a graphene type: \<^verbatim>\<open>_meta.model\<close> and \<^verbatim>\<open>_meta.id_field\<close>
  (\<open>None\<close> when the attribute is missing), whether \<^verbatim>\<open>_meta\<close> has \<^verbatim>\<open>node\<close>, and whether the
  type itself has \<^verbatim>\<open>cursor\<close> and \<^verbatim>\<open>node\<close>.
\<close>

record graphene_type =
  meta_model :: "string option"
  meta_id_field :: "string option"
  meta_has_node :: bool
  has_cursor :: bool
  has_node :: bool

text \<open>A field definition: the name of the type \<^verbatim>\<open>_get_type\<close> reaches by unwrapping
  \<^verbatim>\<open>of_type\<close>, and the resolver.\<close>

record field_def =
  fd_type :: string
  fd_resolver :: resolver

datatype type_kind = ObjectKind | InterfaceKind | UnionKind

record gql_type =
  type_name :: string
  type_kind :: type_kind
  graphene :: "graphene_type option"
  type_fields :: "(string \<times> field_def) list"

text \<open>
  The \<^verbatim>\<open>QueryOptimizer\<close> instance with its \<^verbatim>\<open>root_info\<close>: the three options, the variable
  values, the fragments, the schema (types by name, possible types of an abstract type) and
  the model metadata of Django (\<^verbatim>\<open>issubclass\<close>, the join field names of
  \<^verbatim>\<open>get_path_from_parent\<close>, \<^verbatim>\<open>_meta.get_field\<close>, the relation of a class-level descriptor),
  and whether \<^verbatim>\<open>django.db.models.DEFERRED\<close> can be imported.
\<close>

record env =
  opt_disable_abort_only :: bool
  opt_parent_id_field :: "string option"
  opt_id_field :: string
  variable_values :: "(string \<times> pyvalue) list"
  fragments :: "(string \<times> selection list) list"
  schema_types :: "string \<Rightarrow> gql_type option"
  schema_possible_types :: "string \<Rightarrow> gql_type list"
  model_issubclass :: "string \<Rightarrow> string \<Rightarrow> bool"
  path_from_parent :: "string \<Rightarrow> string \<Rightarrow> string list"
  meta_get_field :: "string \<Rightarrow> string \<Rightarrow> model_field option"
  descriptor_rel :: "string \<Rightarrow> string \<Rightarrow> model_field option"
  has_DEFERRED :: bool

text \<open>A type that is not a graphene type of the schema (a scalar): no \<^verbatim>\<open>graphene_type\<close>.\<close>

definition leaf_type :: "string \<Rightarrow> gql_type" where
  "leaf_type n = \<lparr> type_name = n, type_kind = ObjectKind, graphene = None, type_fields = [] \<rparr>"

text \<open>\<^verbatim>\<open>_get_type\<close>\<close>

definition get_type :: "env \<Rightarrow> field_def \<Rightarrow> gql_type" where
  "get_type e fd = (case schema_types e (fd_type fd) of None \<Rightarrow> leaf_type (fd_type fd) | Some t \<Rightarrow> t)"

text \<open>\<^verbatim>\<open>_get_possible_types\<close>\<close>

definition get_possible_types :: "env \<Rightarrow> gql_type \<Rightarrow> gql_type list" where
  "get_possible_types e t =
     (if type_kind t = InterfaceKind \<or> type_kind t = UnionKind
      then schema_possible_types e (type_name t) else [t])"

text \<open>\<^verbatim>\<open>t.graphene_type._meta.model\<close>, an \<^verbatim>\<open>AttributeError\<close> when an attribute is missing.\<close>

definition type_model :: "gql_type \<Rightarrow> error + string" where
  "type_model t =
     (case graphene t of
        None \<Rightarrow> Inl AttributeError
      | Some g \<Rightarrow> (case meta_model g of None \<Rightarrow> Inl AttributeError | Some m \<Rightarrow> Inr m))"

text \<open>Collecting the results of a comprehension whose body can raise.\<close>

fun map_err :: "('a \<Rightarrow> error + 'b) \<Rightarrow> 'a list \<Rightarrow> error + 'b list" where
  "map_err f [] = Inr []"
| "map_err f (x # xs) =
     (case f x of
        Inl e \<Rightarrow> Inl e
      | Inr y \<Rightarrow> (case map_err f xs of Inl e \<Rightarrow> Inl e | Inr ys \<Rightarrow> Inr (y # ys)))"

text \<open>\<^verbatim>\<open>_get_base_model\<close>: the first model every model of the tuple is a subclass of.\<close>

definition get_base_model :: "env \<Rightarrow> gql_type list \<Rightarrow> error + string option" where
  "get_base_model e graphql_types =
     (case map_err type_model graphql_types of
        Inl err \<Rightarrow> Inl err
      | Inr models \<Rightarrow>
          Inr (find (\<lambda>model. \<forall>m \<in> set models. model_issubclass e m model) models))"

text \<open>\<^verbatim>\<open>LOOKUP_SEP.join\<close>\<close>

fun join_sep :: "string list \<Rightarrow> string" where
  "join_sep [] = []"
| "join_sep [x] = x"
| "join_sep (x # y # ys) = x @ LOOKUP_SEP @ join_sep (y # ys)"

section \<open>Finding the model attribute of a field\<close>

text \<open>\<^verbatim>\<open>arg.__name__\<close> for the first argument of a partial.\<close>

fun name_attr :: "pyobj \<Rightarrow> error + string" where
  "name_attr (Callable (Function DjangoObjectType_resolve_id h)) = Inr ''resolve_id''"
| "name_attr (Callable (Function (UserFunction n) h)) = Inr n"
| "name_attr (Callable (Function default_resolver h)) = Inr ''default_resolver''"
| "name_attr (Callable (Function DjangoListField_list_resolver h)) = Inr ''list_resolver''"
| "name_attr (Callable (Function DjangoPlusListField_list_resolver h)) = Inr ''list_resolver''"
| "name_attr (Callable (Function GlobalID_id_resolver h)) = Inr ''id_resolver''"
| "name_attr (Callable (Function PlusListField_list_resolver h)) = Inr ''list_resolver''"
| "name_attr (Callable (Function PlusFilterConnectionField_connection_resolver h)) =
     Inr ''connection_resolver''"
| "name_attr (Callable (Partial f args)) = Inl AttributeError"
| "name_attr (Str s) = Inl AttributeError"
| "name_attr (Class c) = Inr c"
| "name_attr NoneObject = Inl AttributeError"

text \<open>\<^verbatim>\<open>_is_resolver_for_id_field\<close>\<close>

fun is_resolver_for_id_field :: "resolver \<Rightarrow> error + bool" where
  "is_resolver_for_id_field (Partial f args) =
     (if f = GlobalID_id_resolver \<and> args \<noteq> []
      then map_sum id (\<lambda>n. n = ''resolve_id'') (name_attr (hd args))
      else Inr False)"
| "is_resolver_for_id_field (Function f h) = Inr (f = DjangoObjectType_resolve_id)"

text \<open>
  The \<^verbatim>\<open>for ... else\<close> loop of \<^verbatim>\<open>_get_name_from_resolver\<close>: the first argument that is a
  string or a partial, else \<^verbatim>\<open>args[0]\<close>.
\<close>

fun is_str_or_partial :: "pyobj \<Rightarrow> bool" where
  "is_str_or_partial (Str s) = True"
| "is_str_or_partial (Callable (Partial f args)) = True"
| "is_str_or_partial obj = False"

definition pick_arg :: "pyobj list \<Rightarrow> error + pyobj" where
  "pick_arg args = (case find is_str_or_partial args of Some a \<Rightarrow> Inr a | None \<Rightarrow> index args 0)"

text \<open>
  \<^verbatim>\<open>_get_name_from_resolver\<close>. The name is \<^verbatim>\<open>None\<close>, a string, or whatever object the
  partial carries.
\<close>

definition get_name_from_resolver ::
  "env \<Rightarrow> resolver \<Rightarrow> gql_type \<Rightarrow> error + (pyobj option \<times> bool)" where
  "get_name_from_resolver e resolver parent_type =
     (case get_optimization_hints resolver of
        Inl err \<Rightarrow> Inl err
      | Inr oh \<Rightarrow>
         (case (case oh of None \<Rightarrow> None
                | Some h \<Rightarrow> (case h_model_field h of None \<Rightarrow> None | Some n \<Rightarrow> Some (n, h_ignore h))) of
            Some (n, ign) \<Rightarrow> Inr (Some (Str n), ign)
          | None \<Rightarrow>
             (case is_resolver_for_id_field resolver of
                Inl err \<Rightarrow> Inl err
              | Inr True \<Rightarrow>
                  (case (case graphene parent_type of None \<Rightarrow> None | Some g \<Rightarrow> meta_id_field g) of
                     Some i \<Rightarrow> Inr (Some (Str i), False)
                   | None \<Rightarrow> Inr (Some (Str (opt_id_field e)), False))
              | Inr False \<Rightarrow>
                  (case resolver of
                     Function f h \<Rightarrow> Inr (None, False)
                   | Partial f args \<Rightarrow>
                       (case (if f \<noteq> default_resolver then pick_arg args
                              else Inr (Callable resolver)) of
                          Inl err \<Rightarrow> Inl err
                        | Inr (Callable (Partial f' args')) \<Rightarrow>
                            if f' = default_resolver
                            then map_sum id (\<lambda>a. (Some a, False)) (index args' 0)
                            else Inr (Some (Callable (Partial f' args')), False)
                        | Inr obj \<Rightarrow> Inr (Some obj, False))))))"

text \<open>Truth of the name: \<^verbatim>\<open>None\<close> and the empty string are false.\<close>

fun truthy_name :: "pyobj option \<Rightarrow> bool" where
  "truthy_name None = False"
| "truthy_name (Some (Str s)) = (s \<noteq> [])"
| "truthy_name (Some obj) = True"

text \<open>
  \<^verbatim>\<open>_get_model_field_from_name\<close>: \<^verbatim>\<open>get_field\<close>, and on \<^verbatim>\<open>FieldDoesNotExist\<close> the relation of
  the class attribute of that name. A name that is not a string names no field.
\<close>

fun get_model_field_from_name :: "env \<Rightarrow> string \<Rightarrow> pyobj \<Rightarrow> model_field option" where
  "get_model_field_from_name e model (Str name) =
     (case meta_get_field e model name of
        Some f \<Rightarrow> Some f
      | None \<Rightarrow> descriptor_rel e model name)"
| "get_model_field_from_name e model obj = None"

text \<open>\<^verbatim>\<open>_is_foreign_key_id\<close>\<close>

definition is_foreign_key_id :: "model_field \<Rightarrow> string \<Rightarrow> bool" where
  "is_foreign_key_id f name = (is_ForeignKey f \<and> mf_name f \<noteq> name \<and> attname f = name)"

section \<open>Per-field optimization\<close>

text \<open>
  The walker \<^verbatim>\<open>_optimize_gql_selections\<close> and the per-field functions call each other. Each
  per-field function takes the walker as its first argument \<open>walk\<close>; the walker reads only
  \<^verbatim>\<open>selection_set\<close> of the node it is given, so \<open>walk\<close> takes that attribute.
\<close>

type_synonym walker = "gql_type \<Rightarrow> selection list option \<Rightarrow> error + store"

text \<open>\<^verbatim>\<open>_get_value\<close> on an argument of the selection.\<close>

fun get_value :: "(string \<times> pyvalue) list \<Rightarrow> ast_value \<Rightarrow> pyvalue" where
  "get_value vv (Variable var_name) = dict_get vv var_name PyNone"
| "get_value vv (BooleanValue b) = PyBool b"
| "get_value vv (StringValue s) = PyStr s"

text \<open>
  \<^verbatim>\<open>_add_optimization_hints\<close> for a list target, with the optional \<^verbatim>\<open>not_applied\<close> list, and
  for a dict target.
\<close>

definition add_optimization_hints ::
  "'a list \<Rightarrow> 'a list \<Rightarrow> 'a list option \<Rightarrow> bool \<Rightarrow> 'a list \<times> 'a list option" where
  "add_optimization_hints source target not_applied should_apply =
     (if source \<noteq> [] then
        (case not_applied of
           None \<Rightarrow> (target @ source, None)
         | Some na \<Rightarrow>
             if should_apply then (target @ source, Some na) else (target, Some (na @ source)))
      else (target, not_applied))"

definition add_optimization_hints_dict ::
  "('k \<times> 'v) list \<Rightarrow> ('k \<times> 'v) list \<Rightarrow> ('k \<times> 'v) list" where
  "add_optimization_hints_dict source target =
     (if source \<noteq> [] then dict_update target source else target)"

text \<open>\<^verbatim>\<open>_optimize_field_by_hints\<close>\<close>

definition optimize_field_by_hints ::
  "env \<Rightarrow> store \<Rightarrow> selection \<Rightarrow> field_def \<Rightarrow> gql_type \<Rightarrow> error + (bool \<times> store)" where
  "optimize_field_by_hints e store selection field_def parent_type =
     (case get_optimization_hints (fd_resolver field_def) of
        Inl err \<Rightarrow> Inl err
      | Inr None \<Rightarrow> Inr (False, store)
      | Inr (Some h) \<Rightarrow>
          (let info = \<lparr> info_field_name = selection_name selection,
                        info_return_type = type_name (get_type e field_def),
                        info_parent_type = type_name parent_type \<rparr>;
               args = map (\<lambda>(n, v). get_value (variable_values e) v) (arguments selection);
               s1 = store\<lparr>select_list :=
                      fst (add_optimization_hints (h_select_related h info args)
                             (select_list store) None True)\<rparr>;
               pf = add_optimization_hints (h_prefetch_related h info args)
                      (prefetch_list s1) (Some (prefetch_not_applied s1))
                      (h_apply_prefetch_related h);
               s2 = s1\<lparr>prefetch_list := fst pf,
                       prefetch_not_applied :=
                         (case snd pf of None \<Rightarrow> prefetch_not_applied s1 | Some na \<Rightarrow> na)\<rparr>;
               s3 = s2\<lparr>annotate_dict :=
                      add_optimization_hints_dict (h_annotate h info args) (annotate_dict s2)\<rparr>;
               s4 = (case only_list s3 of
                       None \<Rightarrow> s3
                     | Some cols \<Rightarrow>
                         s3\<lparr>only_list :=
                           Some (fst (add_optimization_hints (h_only h info args) cols None True))\<rparr>)
           in Inr (True, s4)))"

text \<open>\<^verbatim>\<open>_optimize_field_by_name\<close>\<close>

definition optimize_field_by_name ::
  "walker \<Rightarrow> env \<Rightarrow> store \<Rightarrow> string \<Rightarrow> selection \<Rightarrow> field_def \<Rightarrow> gql_type \<Rightarrow>
     error + (bool \<times> store)" where
  "optimize_field_by_name walk e store model selection field_def parent_type =
     (case get_name_from_resolver e (fd_resolver field_def) parent_type of
        Inl err \<Rightarrow> Inl err
      | Inr (name_obj, ignore) \<Rightarrow>
          if \<not> truthy_name name_obj then Inr (False, store)
          else if ignore then Inr (True, store)
          else
            (case name_obj of
               Some (Str name) \<Rightarrow>
                 (case get_model_field_from_name e model (Str name) of
                    None \<Rightarrow> Inr (False, store)
                  | Some mf \<Rightarrow>
                      if is_foreign_key_id mf name then Inr (True, only name store)
                      else if many_to_one mf \<or> one_to_one mf then
                        (let field_def_type = get_type e field_def in
                         case walk field_def_type (selection_set selection) of
                           Inl err \<Rightarrow> Inl err
                         | Inr field_store \<Rightarrow>
                             (let id_field = (case graphene field_def_type of
                                                None \<Rightarrow> None
                                              | Some g \<Rightarrow> meta_id_field g)
                              in map_sum id (Pair True)
                                   (select_related name field_store (Some mf) id_field store)))
                      else if one_to_many mf \<or> many_to_many mf then
                        (case walk (get_type e field_def) (selection_set selection) of
                           Inl err \<Rightarrow> Inl err
                         | Inr field_store \<Rightarrow>
                             (let field_store' = (if is_ManyToOneRel mf
                                                  then only (remote_field_name mf) field_store
                                                  else field_store);
                                  related_queryset = objects_all (related_model mf)
                              in Inr (True, prefetch_related name field_store' related_queryset
                                              None None store)))
                      else if \<not> is_relation mf then Inr (True, only name store)
                      else Inr (False, store))
             | _ \<Rightarrow> Inr (False, store)))"

text \<open>\<^verbatim>\<open>_optimize_field\<close>\<close>

definition optimize_field ::
  "walker \<Rightarrow> env \<Rightarrow> store \<Rightarrow> string \<Rightarrow> selection \<Rightarrow> field_def \<Rightarrow> gql_type \<Rightarrow> string \<Rightarrow>
     error + store" where
  "optimize_field walk e store model selection field_def parent_type name =
     (if truthy (optimize_field_by_directives (variable_values e) (directives selection))
      then Inr store
      else
        (case optimize_field_by_name walk e store model selection field_def parent_type of
           Inl err \<Rightarrow> Inl err
         | Inr (optimized_by_name, s1) \<Rightarrow>
             (case optimize_field_by_hints e s1 selection field_def parent_type of
                Inl err \<Rightarrow> Inl err
              | Inr (optimized_by_hints, s2) \<Rightarrow>
                  if \<not> (optimized_by_name \<or> optimized_by_hints)
                  then Inr (abort_only_optimization s2)
                  else Inr s2)))"

section \<open>The selection walker\<close>

text \<open>A \<^verbatim>\<open>for\<close> loop over a list whose body updates a state and can raise.\<close>

fun for_each :: "('a \<Rightarrow> 's \<Rightarrow> error + 's) \<Rightarrow> 'a list \<Rightarrow> 's \<Rightarrow> error + 's" where
  "for_each body [] s = Inr s"
| "for_each body (x # xs) s =
     (case body x s of Inl err \<Rightarrow> Inl err | Inr s' \<Rightarrow> for_each body xs s')"

text \<open>The body of the loop of \<^verbatim>\<open>handle_inline_fragment\<close>, for one possible type of the
  fragment's type condition.\<close>

definition inline_fragment_step ::
  "walker \<Rightarrow> env \<Rightarrow> selection \<Rightarrow> gql_type list \<Rightarrow> gql_type \<Rightarrow> store \<Rightarrow> error + store" where
  "inline_fragment_step walk e selection possible_types fragment_possible_type store =
     (case type_model fragment_possible_type of
        Inl err \<Rightarrow> Inl err
      | Inr fragment_model \<Rightarrow>
          (case get_base_model e possible_types of
             Inl err \<Rightarrow> Inl err
           | Inr None \<Rightarrow> Inr store
           | Inr (Some parent_model) \<Rightarrow>
               (let select_related_name = join_sep (path_from_parent e fragment_model parent_model)
                in if select_related_name = [] then Inr store
                   else
                     (case walk fragment_possible_type (selection_set selection) of
                        Inl err \<Rightarrow> Inl err
                      | Inr fragment_store \<Rightarrow>
                          select_related select_related_name fragment_store None None store))))"

text \<open>
  \<^verbatim>\<open>handle_inline_fragment\<close>. An inline fragment without a type condition has
  \<^verbatim>\<open>type_condition = None\<close>, and \<^verbatim>\<open>schema.get_type\<close> gives \<^verbatim>\<open>None\<close> for an unknown name; both
  end in an \<^verbatim>\<open>AttributeError\<close>.
\<close>

definition handle_inline_fragment ::
  "walker \<Rightarrow> env \<Rightarrow> selection \<Rightarrow> gql_type list \<Rightarrow> store \<Rightarrow> error + store" where
  "handle_inline_fragment walk e selection possible_types store =
     (case selection of
        InlineFragment (Some fragment_type_name) sels \<Rightarrow>
          (case schema_types e fragment_type_name of
             None \<Rightarrow> Inl AttributeError
           | Some fragment_type \<Rightarrow>
               for_each (inline_fragment_step walk e selection possible_types)
                 (get_possible_types e fragment_type) store)
      | _ \<Rightarrow> Inl AttributeError)"

text \<open>\<^verbatim>\<open>handle_fragment_spread\<close>\<close>

definition handle_fragment_spread ::
  "walker \<Rightarrow> env \<Rightarrow> store \<Rightarrow> string \<Rightarrow> gql_type \<Rightarrow> error + store" where
  "handle_fragment_spread walk e store name field_type =
     (case map_of (fragments e) name of
        None \<Rightarrow> Inl KeyError
      | Some fragment \<Rightarrow>
          (case walk field_type (Some fragment) of
             Inl err \<Rightarrow> Inl err
           | Inr fragment_store \<Rightarrow> Inr (append fragment_store store)))"

text \<open>
  The body of \<^verbatim>\<open>for possible_type in possible_types\<close> for a plain field. The state is the
  store and the dict \<^verbatim>\<open>optimized_fields_by_model\<close>; the dict gets the name before
  \<^verbatim>\<open>_optimize_field\<close> runs, and the test \<^verbatim>\<open>field_model == model\<close> that follows the
  assignment is always true.
\<close>

definition plain_field_step ::
  "walker \<Rightarrow> env \<Rightarrow> selection \<Rightarrow> string \<Rightarrow> gql_type \<Rightarrow> store \<times> (string \<times> string) list \<Rightarrow>
     error + store \<times> (string \<times> string) list" where
  "plain_field_step walk e selection name possible_type st =
     (case map_of (type_fields possible_type) name of
        None \<Rightarrow> Inr st
      | Some selection_field_def \<Rightarrow>
          (case graphene possible_type of
             None \<Rightarrow> Inl AttributeError
           | Some g \<Rightarrow>
               if meta_has_node g \<or> (has_cursor g \<and> has_node g) then
                 (case walk (get_type e selection_field_def) (selection_set selection) of
                    Inl err \<Rightarrow> Inl err
                  | Inr relay_store \<Rightarrow>
                      (let s1 = append relay_store (fst st)
                       in Inr (if has_DEFERRED e then s1 else abort_only_optimization s1, snd st)))
               else
                 (case meta_model g of
                    None \<Rightarrow> Inr st
                  | Some model \<Rightarrow>
                      if map_of (snd st) name = None then
                        map_sum id (\<lambda>s. (s, AList.update name model (snd st)))
                          (optimize_field walk e (fst st) model selection selection_field_def
                             possible_type name)
                      else Inr st)))"

text \<open>The body of \<^verbatim>\<open>for selection in selection_set.selections\<close>.\<close>

definition selection_step ::
  "walker \<Rightarrow> env \<Rightarrow> gql_type \<Rightarrow> gql_type list \<Rightarrow> selection \<Rightarrow>
     store \<times> (string \<times> string) list \<Rightarrow> error + store \<times> (string \<times> string) list" where
  "selection_step walk e field_type possible_types selection st =
     (case selection of
        InlineFragment cond sels \<Rightarrow>
          map_sum id (\<lambda>s. (s, snd st))
            (handle_inline_fragment walk e selection possible_types (fst st))
      | FragmentSpread name \<Rightarrow>
          map_sum id (\<lambda>s. (s, snd st)) (handle_fragment_spread walk e (fst st) name field_type)
      | Field name args ds sels \<Rightarrow>
          for_each (plain_field_step walk e selection name) possible_types st)"

text \<open>
  The body of \<^verbatim>\<open>_optimize_gql_selections\<close>, with the nested calls going to \<open>walk\<close>.
  \<^verbatim>\<open>schema.get_graphql_type(field_type.graphene_type)\<close> gives back the type registered for the
  graphene type, here \<open>field_type\<close> itself, and raises when there is no \<^verbatim>\<open>graphene_type\<close>.
\<close>

definition gql_selections ::
  "walker \<Rightarrow> env \<Rightarrow> gql_type \<Rightarrow> selection list option \<Rightarrow> error + store" where
  "gql_selections walk e field_type sel_set =
     (let store = new_store (opt_disable_abort_only e) in
      case sel_set of
        None \<Rightarrow> Inr store
      | Some selections \<Rightarrow>
          (case graphene field_type of
             None \<Rightarrow> Inl AttributeError
           | Some g \<Rightarrow>
               (let possible_types = get_possible_types e field_type
                in map_sum id fst
                     (for_each (selection_step walk e field_type possible_types) selections
                        (store, [])))))"

text \<open>
  \<^verbatim>\<open>_optimize_gql_selections\<close>. The recursion follows the selection tree and, through
  fragment spreads, the fragments dict; its depth is bounded by the interpreter's recursion
  limit, here the first argument, and exceeding it raises \<^verbatim>\<open>RecursionError\<close>.
\<close>

fun optimize_gql_selections ::
  "nat \<Rightarrow> env \<Rightarrow> gql_type \<Rightarrow> selection list option \<Rightarrow> error + store" where
  "optimize_gql_selections 0 e field_type sel_set = Inl RecursionError"
| "optimize_gql_selections (Suc depth) e field_type sel_set =
     gql_selections (\<lambda>t ss. optimize_gql_selections depth e t ss) e field_type sel_set"

text \<open>
  \<^verbatim>\<open>QueryOptimizer.optimize\<close> for the root field definition and root field node of
  \<^verbatim>\<open>root_info\<close>; \<open>gql_parent_id_field\<close> is the attribute of that name on the queryset, if set.
\<close>

definition optimize ::
  "nat \<Rightarrow> env \<Rightarrow> field_def \<Rightarrow> selection \<Rightarrow> queryset \<Rightarrow> string option \<Rightarrow> string list \<Rightarrow>
     error + queryset" where
  "optimize depth e field_def field_ast queryset gql_parent_id_field append_only_arg =
     (case optimize_gql_selections depth e (get_type e field_def) (selection_set field_ast) of
        Inl err \<Rightarrow> Inl err
      | Inr store \<Rightarrow>
          (let s1 = (case opt_parent_id_field e of
                       Some p \<Rightarrow> if p \<noteq> [] then append_only p store else store
                     | None \<Rightarrow> store);
               s2 = (case gql_parent_id_field of Some p \<Rightarrow> append_only p s1 | None \<Rightarrow> s1);
               s3 = s2\<lparr>append_only_list := append_only_list s2 @ append_only_arg\<rparr>
           in Inr (optimize_queryset s3 queryset)))"

section \<open>The rules of the specification, as stated there\<close>


text \<open>How many column restrictions (\<^verbatim>\<open>only\<close> calls) a lazy query carries.\<close>

definition only_calls :: "queryset \<Rightarrow> nat" where
  "only_calls q = length (filter is_OnlyCall (qs_calls q))"

text \<open>
  One operation on a plan store: the store's own methods, the in-place appends a batched-load
  merge makes on the child, hint application and whole-field optimization.
\<close>

inductive store_op :: "store \<Rightarrow> store \<Rightarrow> bool" where
  op_only: "store_op s (only field s)"
| op_append_only: "store_op s (append_only field s)"
| op_abort: "store_op s (abort_only_optimization s)"
| op_append: "store_op s (append c s)"
| op_select_related: "select_related name c mf idf s = Inr s' \<Longrightarrow> store_op s s'"
| op_prefetch_related: "store_op s (prefetch_related name c qs att idf s)"
| op_prefetch_child: "store_op s (prefetch_child s att idf)"
| op_hints: "optimize_field_by_hints e s sel fd pt = Inr (b, s') \<Longrightarrow> store_op s s'"
| op_field: "optimize_field walk e s model sel fd pt name = Inr s' \<Longrightarrow> store_op s s'"



section \<open>An example schema\<close>

text \<open>
  Models \<^verbatim>\<open>Book{id, title, author -> Author, genres <-> Genre}\<close>, \<^verbatim>\<open>Author{id, name}\<close>,
  \<^verbatim>\<open>Genre{id, name}\<close>, and \<^verbatim>\<open>Item{id, name}\<close> with the multi-table child
  \<^verbatim>\<open>DetailedItem{score}\<close>.
\<close>

definition plain_column :: "string \<Rightarrow> model_field" where
  "plain_column n =
     \<lparr> mf_name = n, attname = n, is_ForeignKey = False, is_ManyToOneRel = False,
       many_to_one = False, one_to_one = False, one_to_many = False, many_to_many = False,
       is_relation = False, related_model = [], remote_field_name = [] \<rparr>"

definition foreign_key :: "string \<Rightarrow> string \<Rightarrow> model_field" where
  "foreign_key n target =
     (plain_column n)\<lparr> attname := n @ ''_id'', is_ForeignKey := True, many_to_one := True,
       is_relation := True, related_model := target \<rparr>"

definition many_to_many_field :: "string \<Rightarrow> string \<Rightarrow> model_field" where
  "many_to_many_field n target =
     (plain_column n)\<lparr> many_to_many := True, is_relation := True, related_model := target \<rparr>"

definition many_to_one_rel :: "string \<Rightarrow> string \<Rightarrow> string \<Rightarrow> model_field" where
  "many_to_one_rel n target remote =
     (plain_column n)\<lparr> is_ManyToOneRel := True, one_to_many := True, is_relation := True,
       related_model := target, remote_field_name := remote \<rparr>"

definition ex_get_field :: "string \<Rightarrow> string \<Rightarrow> model_field option" where
  "ex_get_field model name =
     map_of
       [((''Book'', ''id''), plain_column ''id''),
        ((''Book'', ''title''), plain_column ''title''),
        ((''Book'', ''author''), foreign_key ''author'' ''Author''),
        ((''Book'', ''author_id''), foreign_key ''author'' ''Author''),
        ((''Book'', ''genres''), many_to_many_field ''genres'' ''Genre''),
        ((''Author'', ''id''), plain_column ''id''),
        ((''Author'', ''name''), plain_column ''name''),
        ((''Author'', ''books''), many_to_one_rel ''books'' ''Book'' ''author''),
        ((''Genre'', ''id''), plain_column ''id''),
        ((''Genre'', ''name''), plain_column ''name''),
        ((''Item'', ''id''), plain_column ''id''),
        ((''Item'', ''name''), plain_column ''name''),
        ((''DetailedItem'', ''id''), plain_column ''id''),
        ((''DetailedItem'', ''name''), plain_column ''name''),
        ((''DetailedItem'', ''score''), plain_column ''score'')]
       (model, name)"

text \<open>\<^verbatim>\<open>OptimizationHints()\<close> with every hint at its default, and three bundles made from it.\<close>

definition no_hints :: hints where
  "no_hints =
     \<lparr> h_model_field = None, h_ignore = False,
       h_select_related = (\<lambda>info args. []), h_prefetch_related = (\<lambda>info args. []),
       h_apply_prefetch_related = True,
       h_annotate = (\<lambda>info args. []), h_only = (\<lambda>info args. []) \<rparr>"

definition headline_hints :: hints where
  "headline_hints = no_hints\<lparr> h_model_field := Some ''title'' \<rparr>"

definition rank_hints :: hints where
  "rank_hints = no_hints\<lparr> h_annotate := (\<lambda>info args. [(''rank'', ''Count(books)'')]) \<rparr>"

definition weighted_hints :: hints where
  "weighted_hints = no_hints\<lparr> h_annotate := (\<lambda>info args. [(''weighted'', ''F(score) * 2'')]) \<rparr>"

text \<open>Fields resolved by graphene's default resolver, and graphene types of Django models.\<close>

definition default_field :: "string \<Rightarrow> string \<Rightarrow> string \<times> field_def" where
  "default_field n ty =
     (n, \<lparr> fd_type = ty, fd_resolver = Partial default_resolver [Str n, NoneObject] \<rparr>)"

definition hinted_field :: "string \<Rightarrow> string \<Rightarrow> hints option \<Rightarrow> string \<times> field_def" where
  "hinted_field n ty h =
     (n, \<lparr> fd_type = ty, fd_resolver = Function (UserFunction (''resolve_'' @ n)) h \<rparr>)"

definition django_type :: "string \<Rightarrow> string \<Rightarrow> (string \<times> field_def) list \<Rightarrow> gql_type" where
  "django_type n m fs =
     \<lparr> type_name = n, type_kind = ObjectKind,
       graphene = Some \<lparr> meta_model = Some m, meta_id_field = None, meta_has_node = False,
                         has_cursor = False, has_node = False \<rparr>,
       type_fields = fs \<rparr>"

definition BookType :: gql_type where
  "BookType = django_type ''BookType'' ''Book''
     [default_field ''id'' ''ID'', default_field ''title'' ''String'',
      default_field ''author'' ''AuthorType'', default_field ''genres'' ''GenreType'',
      hinted_field ''headline'' ''String'' (Some headline_hints),
      hinted_field ''full_title'' ''String'' None]"

definition BookSummaryType :: gql_type where
  "BookSummaryType = django_type ''BookSummaryType'' ''Book''
     [default_field ''id'' ''ID'', default_field ''title'' ''String'']"

definition AuthorType :: gql_type where
  "AuthorType = django_type ''AuthorType'' ''Author''
     [default_field ''id'' ''ID'', default_field ''name'' ''String'',
      hinted_field ''rank'' ''Int'' (Some rank_hints)]"

definition GenreType :: gql_type where
  "GenreType = django_type ''GenreType'' ''Genre''
     [default_field ''id'' ''ID'', default_field ''name'' ''String'']"

definition ItemType :: gql_type where
  "ItemType = django_type ''ItemType'' ''Item''
     [default_field ''id'' ''ID'', default_field ''name'' ''String'']"

definition DetailedItemType :: gql_type where
  "DetailedItemType = django_type ''DetailedItemType'' ''DetailedItem''
     [default_field ''id'' ''ID'', default_field ''name'' ''String'',
      default_field ''score'' ''Int'',
      hinted_field ''weighted'' ''Int'' (Some weighted_hints)]"

text \<open>Two abstract positions: the items, and the publications backed by the one model
  \<^verbatim>\<open>Book\<close>.\<close>

definition abstract_type :: "string \<Rightarrow> type_kind \<Rightarrow> (string \<times> field_def) list \<Rightarrow> gql_type" where
  "abstract_type n k fs =
     \<lparr> type_name = n, type_kind = k,
       graphene = Some \<lparr> meta_model = None, meta_id_field = None, meta_has_node = False,
                         has_cursor = False, has_node = False \<rparr>,
       type_fields = fs \<rparr>"

definition ItemInterface :: gql_type where
  "ItemInterface = abstract_type ''ItemInterface'' InterfaceKind
     [default_field ''id'' ''ID'', default_field ''name'' ''String'']"

definition Publication :: gql_type where
  "Publication = abstract_type ''Publication'' InterfaceKind
     [default_field ''id'' ''ID'', default_field ''title'' ''String'']"

definition ex_env :: env where
  "ex_env =
     \<lparr> opt_disable_abort_only = False, opt_parent_id_field = None, opt_id_field = ''id'',
       variable_values = [(''skipAuthor'', PyBool True)],
       fragments = [],
       schema_types = map_of
         [(''BookType'', BookType), (''BookSummaryType'', BookSummaryType),
          (''AuthorType'', AuthorType), (''GenreType'', GenreType),
          (''ItemType'', ItemType), (''DetailedItemType'', DetailedItemType),
          (''ItemInterface'', ItemInterface), (''Publication'', Publication)],
       schema_possible_types = (\<lambda>n.
          if n = ''ItemInterface'' then [ItemType, DetailedItemType]
          else if n = ''Publication'' then [BookType, BookSummaryType]
          else []),
       model_issubclass = (\<lambda>a b. a = b \<or> (a = ''DetailedItem'' \<and> b = ''Item'')),
       path_from_parent = (\<lambda>child parent.
          if child = ''DetailedItem'' \<and> parent = ''Item'' then [''detaileditem''] else []),
       meta_get_field = ex_get_field,
       descriptor_rel = (\<lambda>model name. None),
       has_DEFERRED = True \<rparr>"

text \<open>A store whose projection has been aborted.\<close>

definition aborted_store :: store where
  "aborted_store = abort_only_optimization (new_store False)"

section \<open>What a field adds to the store\<close>

text \<open>
  The context and the arguments \<^verbatim>\<open>_optimize_field_by_hints\<close> hands to the hint functions of
  a selection, and the store with the values the hint functions return added as they are:
  select paths and columns appended, batched loads appended to the applied or to the
  not-applied list, annotations merged in, columns left out when the projection is aborted.
\<close>

definition hint_info :: "env \<Rightarrow> selection \<Rightarrow> field_def \<Rightarrow> gql_type \<Rightarrow> resolve_info" where
  "hint_info e sel fd pt =
     \<lparr> info_field_name = selection_name sel,
       info_return_type = type_name (get_type e fd),
       info_parent_type = type_name pt \<rparr>"

definition hint_args :: "env \<Rightarrow> selection \<Rightarrow> pyvalue list" where
  "hint_args e sel = map (\<lambda>(n, v). get_value (variable_values e) v) (arguments sel)"

definition with_hints :: "hints \<Rightarrow> resolve_info \<Rightarrow> pyvalue list \<Rightarrow> store \<Rightarrow> store" where
  "with_hints h info args s =
     s\<lparr> select_list := select_list s @ h_select_related h info args,
        prefetch_list := prefetch_list s @
           (if h_apply_prefetch_related h then h_prefetch_related h info args else []),
        prefetch_not_applied := prefetch_not_applied s @
           (if h_apply_prefetch_related h then [] else h_prefetch_related h info args),
        annotate_dict := dict_update (annotate_dict s) (h_annotate h info args),
        only_list := map_option (\<lambda>cols. cols @ h_only h info args) (only_list s) \<rparr>"


text \<open>The context of the hint functions for the field \<^verbatim>\<open>headline\<close> of a book.\<close>

definition headline_info :: resolve_info where
  "headline_info =
     \<lparr> info_field_name = ''headline'', info_return_type = ''String'',
       info_parent_type = ''BookType'' \<rparr>"

section \<open>Dispatching a plain field over the concrete types\<close>

text \<open>
  A relay connection or edge type, as \<^verbatim>\<open>_optimize_gql_selections\<close> tests it; a concrete type
  at which the plain-field branch applies to a name (the type lacks the field, or is not a
  relay type); the model of a type, \<^verbatim>\<open>getattr(graphene_type._meta, 'model', None)\<close>; and a
  type to which a field of that name can be delegated: it defines the field and has a model.
\<close>

definition is_relay :: "graphene_type \<Rightarrow> bool" where
  "is_relay g = (meta_has_node g \<or> (has_cursor g \<and> has_node g))"

definition not_relay_at :: "string \<Rightarrow> gql_type \<Rightarrow> bool" where
  "not_relay_at name t =
     (case map_of (type_fields t) name of
        None \<Rightarrow> True
      | Some fd \<Rightarrow> (case graphene t of None \<Rightarrow> False | Some g \<Rightarrow> \<not> is_relay g))"

definition type_model_name :: "gql_type \<Rightarrow> string option" where
  "type_model_name t = (case graphene t of None \<Rightarrow> None | Some g \<Rightarrow> meta_model g)"

definition delegable :: "string \<Rightarrow> gql_type \<Rightarrow> bool" where
  "delegable name t =
     (map_of (type_fields t) name \<noteq> None \<and> type_model_name t \<noteq> None)"

text \<open>
  The plain-field rule in the specification's words: skip a name already handled; else
  delegate to field optimization once per concrete type that defines the field and shares
  the underlying model (of the first such type).
\<close>

fun spec_delegate_all ::
  "walker \<Rightarrow> env \<Rightarrow> selection \<Rightarrow> string \<Rightarrow> string \<Rightarrow> gql_type list \<Rightarrow> store \<Rightarrow> error + store" where
  "spec_delegate_all walk e sel name model [] s = Inr s"
| "spec_delegate_all walk e sel name model (t # ts) s =
     (case (map_of (type_fields t) name, type_model_name t) of
        (Some fd, Some m) \<Rightarrow>
          if m = model then
            (case optimize_field walk e s m sel fd t name of
               Inl err \<Rightarrow> Inl err
             | Inr s' \<Rightarrow> spec_delegate_all walk e sel name model ts s')
          else spec_delegate_all walk e sel name model ts s
      | _ \<Rightarrow> spec_delegate_all walk e sel name model ts s)"

definition spec_plain_field ::
  "walker \<Rightarrow> env \<Rightarrow> selection \<Rightarrow> string \<Rightarrow> gql_type list \<Rightarrow> store \<times> (string \<times> string) list \<Rightarrow>
     error + store \<times> (string \<times> string) list" where
  "spec_plain_field walk e sel name types st =
     (if map_of (snd st) name \<noteq> None then Inr st
      else
        (case find (delegable name) types of
           None \<Rightarrow> Inr st
         | Some t0 \<Rightarrow>
             (case type_model_name t0 of
                None \<Rightarrow> Inr st
              | Some model \<Rightarrow>
                  map_sum id (\<lambda>s. (s, AList.update name model (snd st)))
                    (spec_delegate_all walk e sel name model types (fst st)))))"

section \<open>What a skip or include directive says\<close>



section \<open>Properties of the plan store\<close>

lemma only_keeps_abort: "only_list s = None \<Longrightarrow> only_list (only f s) = None"
  by (simp add: only_def)

lemma append_only_only_list: "only_list (append_only f s) = only_list s"
  by (simp add: append_only_def)

lemma abort_keeps_abort: "only_list s = None \<Longrightarrow> only_list (abort_only_optimization s) = None"
  by (simp add: abort_only_optimization_def)

lemma append_keeps_abort: "only_list s = None \<Longrightarrow> only_list (append c s) = None"
  by (simp add: append_def)

lemma prefetch_related_only_list: "only_list (prefetch_related name c qs att idf s) = only_list s"
  by (simp add: prefetch_related_def)



lemma prefetch_child_keeps_abort: "only_list s = None \<Longrightarrow> only_list (prefetch_child s att idf) = None"
  by (simp add: prefetch_child_def Let_def split: option.splits)

lemma select_related_keeps_abort:
  "only_list s = None \<Longrightarrow> select_related name c mf idf s = Inr s' \<Longrightarrow> only_list s' = None"
  by (auto simp add: select_related_def Let_def prefetch_related_only_list append_only_only_list
      split: if_splits option.splits)





lemma by_hints_keeps_abort:
  "only_list s = None \<Longrightarrow> optimize_field_by_hints e s sel fd pt = Inr (b, s') \<Longrightarrow> only_list s' = None"
  by (auto simp add: optimize_field_by_hints_def Let_def split: sum.splits option.splits)

lemma map_sum_Pair_Inr: "map_sum id (Pair a) x = Inr (b, s') \<longleftrightarrow> (a = b \<and> x = Inr s')"
  by (cases x) auto

lemma by_name_keeps_abort:
  "only_list s = None \<Longrightarrow> optimize_field_by_name walk e s model sel fd pt = Inr (b, s') \<Longrightarrow>
   only_list s' = None"
  unfolding optimize_field_by_name_def Let_def
  by (auto simp add: only_keeps_abort prefetch_related_only_list map_sum_Pair_Inr
      split: sum.splits option.splits if_splits pyobj.splits prod.splits
      dest: select_related_keeps_abort)

lemma field_keeps_abort:
  "only_list s = None \<Longrightarrow> optimize_field walk e s model sel fd pt name = Inr s' \<Longrightarrow>
   only_list s' = None"
  unfolding optimize_field_def
  by (auto split: if_splits sum.splits prod.splits
      dest: by_name_keeps_abort by_hints_keeps_abort abort_keeps_abort)

lemma store_op_keeps_abort: "store_op s s' \<Longrightarrow> only_list s = None \<Longrightarrow> only_list s' = None"
  by (induction rule: store_op.induct)
     (auto simp add: only_keeps_abort append_only_only_list abort_keeps_abort append_keeps_abort
        prefetch_related_only_list prefetch_child_keeps_abort
        dest: select_related_keeps_abort by_hints_keeps_abort field_keeps_abort)






section \<open>Abort propagation on merge\<close>




section \<open>The batched-load merge rule\<close>



section \<open>The abort state is irreversible\<close>

text \<open>
  Claim C8: once \<^verbatim>\<open>only_list\<close> of a store is \<^verbatim>\<open>None\<close>, it is \<^verbatim>\<open>None\<close> after any sequence of
  operations on that store: \<^verbatim>\<open>only\<close>, \<^verbatim>\<open>append_only\<close>, \<^verbatim>\<open>abort_only_optimization\<close>,
  \<^verbatim>\<open>append\<close>, the two merges, hint application and whole-field optimization.
\<close>

theorem abort_irreversible:
  "store_op\<^sup>*\<^sup>* s s' \<Longrightarrow> only_list s = None \<Longrightarrow> only_list s' = None"
  by (induction rule: rtranclp_induct) (auto dest: store_op_keeps_abort)

theorem abort_irreversible_witness:
  "store_op\<^sup>*\<^sup>* aborted_store (only ''title'' (append (new_store False) aborted_store))
   \<and> only_list aborted_store = None
   \<and> only_list (only ''title'' (append (new_store False) aborted_store)) = None"
proof -
  have c: "store_op\<^sup>*\<^sup>* aborted_store (only ''title'' (append (new_store False) aborted_store))"
    using op_append [of aborted_store "new_store False"]
      op_only [of "append (new_store False) aborted_store" "''title''"]
    by (meson rtranclp.rtrancl_into_rtrancl rtranclp.rtrancl_refl)
  have a: "only_list aborted_store = None"
    by (simp add: aborted_store_def abort_only_optimization_def new_store_def)
  show ?thesis using c a abort_irreversible [OF c a] by simp
qed

section \<open>The optimized flag\<close>

text \<open>
  Claim C9, as the code has it: the \<^verbatim>\<open>_gql_optimized\<close> flag of the produced query is true
  exactly when the store's projection is not aborted. A column restriction is applied exactly
  when the projection list is neither \<^verbatim>\<open>None\<close> nor empty; so a restriction implies the flag,
  and not the other way round.
\<close>

theorem optimized_flag_is_not_aborted:
  "gql_optimized (optimize_queryset s q) = Some (only_list s \<noteq> None)
   \<and> only_calls (optimize_queryset s q) =
       only_calls q + (if truthy_list (only_list s) then 1 else 0)
   \<and> (only_calls q < only_calls (optimize_queryset s q) \<longrightarrow>
        gql_optimized (optimize_queryset s q) = Some True)"
  by (cases q; cases "only_list s")
     (auto simp add: optimize_queryset_def only_calls_def Let_def)

theorem optimized_flag_is_not_aborted_witness:
  "gql_optimized (optimize_queryset (only ''title'' (new_store False)) (objects_all ''Book''))
     = Some True
   \<and> only_calls (objects_all ''Book'') = 0
   \<and> only_calls (optimize_queryset (only ''title'' (new_store False)) (objects_all ''Book'')) = 1
   \<and> gql_optimized (optimize_queryset aborted_store (objects_all ''Book'')) = Some False"
  using optimized_flag_is_not_aborted [of "only ''title'' (new_store False)" "objects_all ''Book''"]
    optimized_flag_is_not_aborted [of aborted_store "objects_all ''Book''"]
  by (simp add: new_store_def only_def objects_all_def only_calls_def aborted_store_def
      abort_only_optimization_def)

text \<open>
  The claim as stated fails: a fresh store applied to a base query restricts no column and
  still sets the flag.
\<close>

theorem optimized_flag_counterexample:
  "gql_optimized (optimize_queryset (new_store False) (objects_all ''Book'')) = Some True
   \<and> only_calls (optimize_queryset (new_store False) (objects_all ''Book''))
       = only_calls (objects_all ''Book'')
   \<and> optimize_queryset (new_store False) (objects_all ''Book'') = QuerySet ''Book'' [] (Some True)"
  by (simp add: optimize_queryset_def new_store_def objects_all_def only_calls_def)

section \<open>The first skip or include directive decides\<close>






section \<open>Evaluating the example schema\<close>

lemmas ex_defs = ex_env_def BookType_def BookSummaryType_def AuthorType_def GenreType_def ItemType_def
  DetailedItemType_def ItemInterface_def Publication_def django_type_def abstract_type_def
  default_field_def hinted_field_def no_hints_def headline_hints_def rank_hints_def weighted_hints_def
  ex_get_field_def plain_column_def foreign_key_def many_to_many_field_def many_to_one_rel_def

lemmas walk_defs = gql_selections_def selection_step_def plain_field_step_def handle_inline_fragment_def
  inline_fragment_step_def handle_fragment_spread_def optimize_field_def optimize_field_by_name_def
  optimize_field_by_hints_def get_name_from_resolver_def get_type_def get_possible_types_def
  type_model_def get_base_model_def pick_arg_def index_def is_foreign_key_id_def
  add_optimization_hints_def add_optimization_hints_dict_def dict_update_def dict_get_def
  directive_args_def leaf_type_def

lemmas store_defs = new_store_def only_def append_only_def abort_only_optimization_def
  optimize_queryset_def prefetch_child_def prefetch_related_def select_related_def append_def
  objects_all_def new_Prefetch_def LOOKUP_SEP_def

section \<open>Hints and inference\<close>

lemma dict_update_Nil: "dict_update d [] = d"
  by (simp add: dict_update_def)

lemma by_hints_result:
  assumes "get_optimization_hints (fd_resolver fd) = Inr (Some h)"
  shows "optimize_field_by_hints e s sel fd pt =
           Inr (True, with_hints h (hint_info e sel fd pt) (hint_args e sel) s)"
  using assms
  by (cases "only_list s")
     (simp_all add: optimize_field_by_hints_def Let_def with_hints_def hint_info_def hint_args_def
        add_optimization_hints_def add_optimization_hints_dict_def dict_update_Nil)

lemma field_with_hints:
  assumes "get_optimization_hints (fd_resolver fd) = Inr (Some h)"
    and "\<not> truthy (optimize_field_by_directives (variable_values e) (directives sel))"
    and "optimize_field_by_name walk e s model sel fd pt = Inr (b, s1)"
  shows "optimize_field walk e s model sel fd pt name =
           Inr (with_hints h (hint_info e sel fd pt) (hint_args e sel) s1)"
  using assms by (simp add: optimize_field_def by_hints_result)

lemma by_name_ignored:
  assumes "get_optimization_hints (fd_resolver fd) = Inr (Some h)"
    and "h_model_field h = Some n" and "n \<noteq> []" and "h_ignore h"
  shows "optimize_field_by_name walk e s model sel fd pt = Inr (True, s)"
  using assms by (simp add: optimize_field_by_name_def get_name_from_resolver_def)

lemma by_name_no_name:
  assumes "fd_resolver fd = Function f (Some h)" and "f \<noteq> DjangoObjectType_resolve_id"
    and "h_model_field h = None"
  shows "optimize_field_by_name walk e s model sel fd pt = Inr (False, s)"
  using assms by (simp add: optimize_field_by_name_def get_name_from_resolver_def)

text \<open>
  Claim C2, as the code has it. For a field whose resolver carries hints and which no
  directive excludes, \<^verbatim>\<open>_optimize_field\<close> first runs the name-driven optimization and,
  when that returns, gives back the store it leaves with the values the hint functions
  return added as they are, and nothing else: the abort at the end of \<^verbatim>\<open>_optimize_field\<close>
  is not taken. Whatever the name-driven optimization put into the store stays there. It
  puts in nothing when the hints declare a model field together with the ignore flag, and
  when they declare no model field and the resolver is a plain function other than
  \<^verbatim>\<open>resolve_id\<close>; then the field's contribution is exactly the hints' values.
\<close>

theorem hints_are_added_as_returned:
  assumes "get_optimization_hints (fd_resolver fd) = Inr (Some h)"
    and "\<not> truthy (optimize_field_by_directives (variable_values e) (directives sel))"
  shows "(\<forall>b s1. optimize_field_by_name walk e s model sel fd pt = Inr (b, s1) \<longrightarrow>
            optimize_field walk e s model sel fd pt name =
              Inr (with_hints h (hint_info e sel fd pt) (hint_args e sel) s1))
       \<and> (\<forall>n. h_model_field h = Some n \<and> n \<noteq> [] \<and> h_ignore h \<longrightarrow>
            optimize_field walk e s model sel fd pt name =
              Inr (with_hints h (hint_info e sel fd pt) (hint_args e sel) s))
       \<and> (\<forall>f. fd_resolver fd = Function f (Some h) \<and> f \<noteq> DjangoObjectType_resolve_id
               \<and> h_model_field h = None \<longrightarrow>
            optimize_field walk e s model sel fd pt name =
              Inr (with_hints h (hint_info e sel fd pt) (hint_args e sel) s))"
proof (intro conjI allI impI)
  fix b s1
  assume "optimize_field_by_name walk e s model sel fd pt = Inr (b, s1)"
  then show "optimize_field walk e s model sel fd pt name =
      Inr (with_hints h (hint_info e sel fd pt) (hint_args e sel) s1)"
    by (rule field_with_hints [OF assms])
next
  fix n
  assume "h_model_field h = Some n \<and> n \<noteq> [] \<and> h_ignore h"
  then have "optimize_field_by_name walk e s model sel fd pt = Inr (True, s)"
    using by_name_ignored [OF assms(1)] by blast
  then show "optimize_field walk e s model sel fd pt name =
      Inr (with_hints h (hint_info e sel fd pt) (hint_args e sel) s)"
    by (rule field_with_hints [OF assms])
next
  fix f
  assume "fd_resolver fd = Function f (Some h) \<and> f \<noteq> DjangoObjectType_resolve_id
      \<and> h_model_field h = None"
  then have "optimize_field_by_name walk e s model sel fd pt = Inr (False, s)"
    using by_name_no_name by blast
  then show "optimize_field walk e s model sel fd pt name =
      Inr (with_hints h (hint_info e sel fd pt) (hint_args e sel) s)"
    by (rule field_with_hints [OF assms])
qed

theorem hints_are_added_as_returned_witness:
  "get_optimization_hints (fd_resolver (snd (hinted_field ''rank'' ''Int'' (Some rank_hints))))
     = Inr (Some rank_hints)
   \<and> \<not> truthy (optimize_field_by_directives (variable_values ex_env)
                  (directives (Field ''rank'' [] [] None)))
   \<and> optimize_field (optimize_gql_selections 1 ex_env) ex_env
        ((new_store False)\<lparr>only_list := Some [''name'']\<rparr>) ''Author''
        (Field ''rank'' [] [] None) (snd (hinted_field ''rank'' ''Int'' (Some rank_hints)))
        AuthorType ''rank''
      = Inr ((new_store False)\<lparr>annotate_dict := [(''rank'', ''Count(books)'')],
               only_list := Some [''name'']\<rparr>)"
proof -
  let ?fd = "snd (hinted_field ''rank'' ''Int'' (Some rank_hints))"
  let ?sel = "Field ''rank'' [] [] None"
  have h1: "get_optimization_hints (fd_resolver ?fd) = Inr (Some rank_hints)"
    by (simp add: hinted_field_def)
  have h2: "\<not> truthy (optimize_field_by_directives (variable_values ex_env) (directives ?sel))"
    by simp
  have h3: "fd_resolver ?fd = Function (UserFunction ''resolve_rank'') (Some rank_hints)
      \<and> UserFunction ''resolve_rank'' \<noteq> DjangoObjectType_resolve_id
      \<and> h_model_field rank_hints = None"
    by (simp add: hinted_field_def rank_hints_def no_hints_def)
  have "optimize_field (optimize_gql_selections 1 ex_env) ex_env
        ((new_store False)\<lparr>only_list := Some [''name'']\<rparr>) ''Author'' ?sel ?fd AuthorType ''rank''
      = Inr (with_hints rank_hints (hint_info ex_env ?sel ?fd AuthorType) (hint_args ex_env ?sel)
               ((new_store False)\<lparr>only_list := Some [''name'']\<rparr>))"
    using hints_are_added_as_returned [OF h1 h2] h3 by blast
  then show ?thesis
    using h1 h2
    by (simp add: with_hints_def hint_args_def rank_hints_def no_hints_def new_store_def
        dict_update_def)
qed

text \<open>
  The claim as stated fails: the resolver of \<^verbatim>\<open>headline\<close> carries hints whose four functions
  all return nothing and whose model field is \<^verbatim>\<open>title\<close>; the field still contributes the
  column \<^verbatim>\<open>title\<close>, found by classifying that attribute of the model.
\<close>

theorem hint_precedence_counterexample:
  "map_of (type_fields BookType) ''headline''
     = Some \<lparr>fd_type = ''String'',
             fd_resolver = Function (UserFunction ''resolve_headline'') (Some headline_hints)\<rparr>
   \<and> h_select_related headline_hints headline_info [] = []
   \<and> h_prefetch_related headline_hints headline_info [] = []
   \<and> h_annotate headline_hints headline_info [] = []
   \<and> h_only headline_hints headline_info [] = []
   \<and> optimize_gql_selections (Suc 0) ex_env BookType (Some [Field ''headline'' [] [] None])
       = Inr ((new_store False)\<lparr>only_list := Some [''title'']\<rparr>)"
  by (simp add: ex_defs walk_defs store_defs headline_info_def)

section \<open>Joins and batched loads\<close>











section \<open>Error paths\<close>

text \<open>
  Claim C4 fails on the code. \<^verbatim>\<open>handle_inline_fragment\<close> merges the fragment's store with
  \<^verbatim>\<open>store.select_related(select_related_name, fragment_store)\<close>, without a model field;
  when the fragment's store carries an annotation, \<^verbatim>\<open>select_related\<close> reads
  \<^verbatim>\<open>model_field.attname\<close> of \<^verbatim>\<open>None\<close>. The same fragment without the annotated field
  optimizes to a join.
\<close>

theorem inline_fragment_with_annotation_raises:
  "optimize_gql_selections (Suc (Suc depth)) ex_env ItemInterface
     (Some [Field ''name'' [] [] None,
            InlineFragment (Some ''DetailedItemType'') [Field ''weighted'' [] [] None]])
     = Inl AttributeError
   \<and> optimize_gql_selections (Suc (Suc depth)) ex_env ItemInterface
     (Some [Field ''name'' [] [] None,
            InlineFragment (Some ''DetailedItemType'') [Field ''score'' [] [] None]])
     = Inr ((new_store False)\<lparr>select_list := [''detaileditem''],
              only_list := Some [''name'', ''detaileditem__score'']\<rparr>)"
  by (simp add: ex_defs walk_defs store_defs)

section \<open>A single skip or include directive\<close>









section \<open>A plain field is delegated once\<close>

lemma step_handled:
  "map_of d name \<noteq> None \<Longrightarrow> not_relay_at name t \<Longrightarrow>
   plain_field_step walk e sel name t (s, d) = Inr (s, d)"
  by (auto simp add: plain_field_step_def not_relay_at_def is_relay_def split: option.splits)

lemma step_not_delegable:
  "\<not> delegable name t \<Longrightarrow> not_relay_at name t \<Longrightarrow>
   plain_field_step walk e sel name t (s, d) = Inr (s, d)"
  by (auto simp add: plain_field_step_def not_relay_at_def is_relay_def delegable_def
      type_model_name_def split: option.splits)

lemma step_delegates:
  assumes "map_of d name = None" and "map_of (type_fields t) name = Some fd"
    and "graphene t = Some g" and "\<not> is_relay g" and "meta_model g = Some m"
  shows "plain_field_step walk e sel name t (s, d) =
     map_sum id (\<lambda>s'. (s', AList.update name m d)) (optimize_field walk e s m sel fd t name)"
  using assms by (auto simp add: plain_field_step_def is_relay_def)

lemma step_delegable_result:
  assumes "map_of d name = None" and "delegable name t" and "not_relay_at name t"
    and "plain_field_step walk e sel name t (s, d) = Inr (s', d')"
  shows "map_of d' name \<noteq> None"
proof -
  from assms(2,3) obtain fd g m where x: "map_of (type_fields t) name = Some fd"
      "graphene t = Some g" "\<not> is_relay g" "meta_model g = Some m"
    by (auto simp add: delegable_def not_relay_at_def type_model_name_def split: option.splits)
  have "plain_field_step walk e sel name t (s, d) =
     map_sum id (\<lambda>s'. (s', AList.update name m d)) (optimize_field walk e s m sel fd t name)"
    by (rule step_delegates [OF assms(1) x])
  with assms(4) have "d' = AList.update name m d"
    by (cases "optimize_field walk e s m sel fd t name") auto
  then show ?thesis by (simp add: update_conv')
qed

lemma for_each_handled:
  "\<forall>t \<in> set types. not_relay_at name t \<Longrightarrow> map_of d name \<noteq> None \<Longrightarrow>
   for_each (plain_field_step walk e sel name) types (s, d) = Inr (s, d)"
  by (induction types) (simp_all add: step_handled)

lemma for_each_plain_field:
  "\<forall>t \<in> set types. not_relay_at name t \<Longrightarrow> map_of d name = None \<Longrightarrow>
   for_each (plain_field_step walk e sel name) types (s, d) =
     (case find (delegable name) types of
        None \<Rightarrow> Inr (s, d)
      | Some t \<Rightarrow> plain_field_step walk e sel name t (s, d))"
proof (induction types)
  case Nil
  then show ?case by simp
next
  case (Cons t ts)
  show ?case
  proof (cases "delegable name t")
    case True
    show ?thesis
    proof (cases "plain_field_step walk e sel name t (s, d)")
      case (Inl err)
      then show ?thesis using True by simp
    next
      case (Inr st')
      obtain s' d' where st': "st' = (s', d')" by (cases st')
      have "map_of d' name \<noteq> None"
        using step_delegable_result [OF Cons.prems(2) True _ Inr [unfolded st']] Cons.prems(1)
        by simp
      then have "for_each (plain_field_step walk e sel name) ts (s', d') = Inr (s', d')"
        using for_each_handled Cons.prems(1) by simp
      then show ?thesis using True Inr st' by simp
    qed
  next
    case False
    then have "plain_field_step walk e sel name t (s, d) = Inr (s, d)"
      using step_not_delegable Cons.prems(1) by simp
    then show ?thesis using False Cons by simp
  qed
qed

text \<open>
  Claim C7, as the code has it. Over concrete types that are not relay connection or edge
  types, the loop for a plain field does nothing when the name was already handled in this
  selection set; otherwise it resolves the field against the concrete types in order and
  delegates to \<^verbatim>\<open>_optimize_field\<close> once, for the first type that defines the field and has a
  model, recording the name; every later type is skipped, whether or not it shares the model.
\<close>

theorem plain_field_delegated_once:
  assumes "\<forall>t \<in> set types. not_relay_at name t"
  shows "for_each (plain_field_step walk e sel name) types (s, d) =
           (if map_of d name \<noteq> None then Inr (s, d)
            else (case find (delegable name) types of
                    None \<Rightarrow> Inr (s, d)
                  | Some t \<Rightarrow> plain_field_step walk e sel name t (s, d)))
       \<and> (\<forall>t fd g m. map_of d name = None \<and> map_of (type_fields t) name = Some fd
             \<and> graphene t = Some g \<and> \<not> is_relay g \<and> meta_model g = Some m \<longrightarrow>
           plain_field_step walk e sel name t (s, d) =
             map_sum id (\<lambda>s'. (s', AList.update name m d))
               (optimize_field walk e s m sel fd t name))"
  using for_each_handled [OF assms] for_each_plain_field [OF assms] step_delegates
  by (cases "map_of d name") auto

theorem plain_field_delegated_once_witness:
  "not_relay_at ''title'' BookType \<and> not_relay_at ''title'' BookSummaryType
   \<and> find (delegable ''title'') [BookType, BookSummaryType] = Some BookType
   \<and> for_each (plain_field_step (optimize_gql_selections (Suc 0) ex_env) ex_env
         (Field ''title'' [] [] None) ''title'') [BookType, BookSummaryType] (new_store False, [])
       = Inr ((new_store False)\<lparr>only_list := Some [''title'']\<rparr>, [(''title'', ''Book'')])"
proof -
  have h: "\<forall>t \<in> set [BookType, BookSummaryType]. not_relay_at ''title'' t"
    by (simp add: not_relay_at_def is_relay_def ex_defs)
  have f: "find (delegable ''title'') [BookType, BookSummaryType] = Some BookType"
    by (simp add: delegable_def type_model_name_def ex_defs)
  have s: "plain_field_step (optimize_gql_selections (Suc 0) ex_env) ex_env
         (Field ''title'' [] [] None) ''title'' BookType (new_store False, [])
       = Inr ((new_store False)\<lparr>only_list := Some [''title'']\<rparr>, [(''title'', ''Book'')])"
    by (simp add: ex_defs walk_defs store_defs)
  show ?thesis
    using plain_field_delegated_once [OF h, of "optimize_gql_selections (Suc 0) ex_env" ex_env
        "Field ''title'' [] [] None" "new_store False" "[]"] h f s
    by simp
qed

text \<open>
  The claim as stated fails: \<^verbatim>\<open>BookType\<close> and \<^verbatim>\<open>BookSummaryType\<close> both define \<^verbatim>\<open>title\<close> and
  share the model \<^verbatim>\<open>Book\<close>; the code delegates the field for the first only, where one
  delegation per concrete type sharing the model would add the column twice.
\<close>

theorem plain_field_dispatch_counterexample:
  "type_model_name BookType = Some ''Book'' \<and> type_model_name BookSummaryType = Some ''Book''
   \<and> map_of (type_fields BookType) ''title'' \<noteq> None
   \<and> map_of (type_fields BookSummaryType) ''title'' \<noteq> None
   \<and> for_each (plain_field_step (optimize_gql_selections (Suc 0) ex_env) ex_env
         (Field ''title'' [] [] None) ''title'') [BookType, BookSummaryType] (new_store False, [])
       = Inr ((new_store False)\<lparr>only_list := Some [''title'']\<rparr>, [(''title'', ''Book'')])
   \<and> spec_plain_field (optimize_gql_selections (Suc 0) ex_env) ex_env
         (Field ''title'' [] [] None) ''title'' [BookType, BookSummaryType] (new_store False, [])
       = Inr ((new_store False)\<lparr>only_list := Some [''title'', ''title'']\<rparr>,
              [(''title'', ''Book'')])
   \<and> optimize_gql_selections (Suc (Suc 0)) ex_env Publication
         (Some [Field ''title'' [] [] None])
       = Inr ((new_store False)\<lparr>only_list := Some [''title'']\<rparr>)"
  by (simp add: ex_defs walk_defs store_defs spec_plain_field_def delegable_def
      type_model_name_def)

end
